theory Spec2Isabelle
  imports Main "HOL-Library.Multiset"
begin

section \<open>Values exchanged with the device and with the user\<close>

text \<open>
  The provisioning flow of \<^verbatim>\<open>WiFiConfigModal.js\<close>: a scan request and a configure
  request against the device's local HTTP API, each bounded by a timer, with the results
  written into the component's state. Numbers that the device contract types as
  integers are \<open>int\<close>; a field that may be absent from a JSON object is an \<open>option\<close>.

  The name of a network is the one string the code looks into, with \<^verbatim>\<open>trim\<close>, so it
  is modelled as JavaScript has it: a sequence of UTF-16 code units. The other strings
  are only copied, joined, tested for emptiness or compared with an ASCII literal, and
  are byte strings.
\<close>

type_synonym js_string = "nat list"

text \<open>The code units of an ASCII literal.\<close>

definition utf16 :: "string \<Rightarrow> js_string" where
  "utf16 s = map of_char s"

record network =
  ssid :: "js_string option"
  rssi :: "int option"
  encryption :: "string option"

record js_error =
  err_name :: string
  err_message :: string

text \<open>\<^verbatim>\<open>new Error(message)\<close>: the name of a plain error is \<^verbatim>\<open>Error\<close>.\<close>

definition new_Error :: "string \<Rightarrow> js_error" where
  "new_Error m = \<lparr>err_name = ''Error'', err_message = m\<rparr>"

text \<open>
  The rejection of a fetch whose signal was aborted. Its name is \<^verbatim>\<open>AbortError\<close>; the
  message is the platform's and is never read on that path.
\<close>

definition abort_error :: js_error where
  "abort_error = \<lparr>err_name = ''AbortError'', err_message = ''Aborted''\<rparr>"

record scan_body =
  scan_success :: bool
  scan_networks :: "network option list option"

record configure_body =
  cfg_success :: bool
  cfg_error :: "string option"

text \<open>
  A response: the status line and what \<^verbatim>\<open>response.json()\<close> gives, \<open>Inl\<close> when the
  body cannot be read as a JSON object (the promise rejects, or the property read on a
  \<^verbatim>\<open>null\<close> body raises inside the same \<^verbatim>\<open>try\<close>). In \<open>scan_networks\<close>, \<open>None\<close> is a
  field that is absent or not an array, and a \<open>None\<close> element of the array is a
  \<^verbatim>\<open>null\<close> entry.
\<close>

record 'b response =
  status :: nat
  statusText :: string
  json :: "js_error + 'b"

text \<open>\<^verbatim>\<open>response.ok\<close> is true for the statuses 200 to 299.\<close>

definition ok :: "'b response \<Rightarrow> bool" where
  "ok r = (200 \<le> status r \<and> status r \<le> 299)"

subsection \<open>Template literals\<close>

definition digit_char :: "nat \<Rightarrow> char" where
  "digit_char d = ''0123456789'' ! d"

fun string_of_nat :: "nat \<Rightarrow> string" where
  "string_of_nat n =
     (if n < 10 then [digit_char n]
      else string_of_nat (n div 10) @ [digit_char (n mod 10)])"

declare string_of_nat.simps [simp del]

text \<open>\<^verbatim>\<open>`HTTP ${response.status}: ${response.statusText}`\<close>\<close>

definition http_error_message :: "'b response \<Rightarrow> string" where
  "http_error_message r = ''HTTP '' @ string_of_nat (status r) @ '': '' @ statusText r"

subsection \<open>Filtering and ordering the scan result\<close>

text \<open>
  \<^verbatim>\<open>String.prototype.trim\<close> removes white space and line terminators at both ends.
  White space is tab, vertical tab, form feed, the byte order mark U+FEFF and the space
  separators of Unicode (U+0020, U+00A0, U+1680, U+2000 to U+200A, U+202F, U+205F,
  U+3000); the line terminators are U+000A, U+000D, U+2028 and U+2029.
\<close>

definition is_space :: "nat \<Rightarrow> bool" where
  "is_space c =
     (c \<in> set [0x09, 0x0A, 0x0B, 0x0C, 0x0D, 0x20, 0xA0, 0x1680, 0x2028, 0x2029, 0x202F,
                0x205F, 0x3000, 0xFEFF] \<or>
      (0x2000 \<le> c \<and> c \<le> 0x200A))"

definition trim :: "js_string \<Rightarrow> js_string" where
  "trim s = rev (dropWhile is_space (rev (dropWhile is_space s)))"

text \<open>\<^verbatim>\<open>network && network.ssid && network.ssid.trim() !== ''\<close>\<close>

definition network_filter :: "network option \<Rightarrow> bool" where
  "network_filter e =
     (case e of
        None \<Rightarrow> False
      | Some n \<Rightarrow>
          (case ssid n of
             None \<Rightarrow> False
           | Some s \<Rightarrow> s \<noteq> [] \<and> trim s \<noteq> []))"

fun filter_networks :: "network option list \<Rightarrow> network list" where
  "filter_networks [] = []"
| "filter_networks (None # es) = filter_networks es"
| "filter_networks (Some n # es) =
     (if network_filter (Some n) then n # filter_networks es else filter_networks es)"

text \<open>\<^verbatim>\<open>x.rssi || -100\<close>: the default is taken for every falsy value, zero included.\<close>

definition rssi_or_default :: "network \<Rightarrow> int" where
  "rssi_or_default n =
     (case rssi n of None \<Rightarrow> - 100 | Some r \<Rightarrow> if r = 0 then - 100 else r)"

text \<open>\<^verbatim>\<open>(a, b) => (b.rssi || -100) - (a.rssi || -100)\<close>\<close>

definition compare_rssi :: "network \<Rightarrow> network \<Rightarrow> int" where
  "compare_rssi a b = rssi_or_default b - rssi_or_default a"

text \<open>
  \<^verbatim>\<open>Array.prototype.sort\<close> with a comparator, as a stable insertion sort: an element
  goes before the first one it does not compare greater than.
\<close>

fun insert_sorted :: "('a \<Rightarrow> 'a \<Rightarrow> int) \<Rightarrow> 'a \<Rightarrow> 'a list \<Rightarrow> 'a list" where
  "insert_sorted cmp x [] = [x]"
| "insert_sorted cmp x (y # ys) =
     (if cmp x y \<le> 0 then x # y # ys else y # insert_sorted cmp x ys)"

fun array_sort :: "('a \<Rightarrow> 'a \<Rightarrow> int) \<Rightarrow> 'a list \<Rightarrow> 'a list" where
  "array_sort cmp [] = []"
| "array_sort cmp (x # xs) = insert_sorted cmp x (array_sort cmp xs)"

definition validNetworks :: "network option list \<Rightarrow> network list" where
  "validNetworks es = array_sort compare_rssi (filter_networks es)"

section \<open>The component's state\<close>

text \<open>
  What the user is shown by \<^verbatim>\<open>Alert.alert\<close>. The fixed prose of each message is not
  reproduced: the constructor names the message and carries the value interpolated into
  it. \<open>alert_closes\<close> holds for the one alert whose button closes the flow.
\<close>

datatype alert_body =
    NoNetworksText
  | ScanTimeoutText
  | ScanFailedText string
  | SelectNetworkText
  | EnterPasswordText
  | ConnectedText "js_string option"
  | ConfigurationTimeoutText
  | ConfigurationFailedText string

record alert =
  alert_title :: string
  alert_text :: alert_body
  alert_closes :: bool

text \<open>
  A registered listener or cleanup function: opaque, identified by a number, and it may
  raise when called.
\<close>

record callback =
  cb_id :: nat
  cb_raises :: bool

record config_data =
  cd_ssid :: "js_string option"
  cd_password :: string

record request =
  req_url :: string
  req_method :: string
  req_headers :: "(string \<times> string) list"
  req_body :: "config_data option"

text \<open>
  The refs and state variables of the component, its two props that the protocol reads
  (\<open>deviceId\<close> is \<^verbatim>\<open>device?.deviceId\<close>), and the environment it acts on: the pending
  timers with their delays in milliseconds, the requests handed to \<^verbatim>\<open>fetch\<close>, the
  alerts shown, the callbacks invoked and the number of \<^verbatim>\<open>onClose\<close> calls. Refs are
  read at their current value. A state variable or prop is read at the value the calling
  function captured when its render created it: the scan takes its captured values as a
  \<open>scan_callback\<close>, while the configure is only called by the button of the latest
  render and reads the state it is given. Timer handles are positive, so a handle held
  in a ref is truthy.
\<close>

record modal =
  mountedRef :: bool
  wifiScanTimerRef :: "nat option"
  wifiListenerRef :: "callback option"
  cleanupFunctionsRef :: "callback list"
  wifiNetworks :: "network list"
  selectedNetwork :: "network option"
  wifiPassword :: string
  isScanning :: bool
  showPassword :: bool
  isConfiguring :: bool
  deviceId :: "string option"
  userId :: "string option"
  timers :: "(nat \<times> nat) list"
  next_timer :: nat
  requests :: "request list"
  alerts :: "alert list"
  released :: "nat list"
  closed :: nat

text \<open>The state of a freshly mounted component.\<close>

definition initial_modal :: "string option \<Rightarrow> string option \<Rightarrow> modal" where
  "initial_modal dev usr =
     \<lparr>mountedRef = True, wifiScanTimerRef = None, wifiListenerRef = None,
      cleanupFunctionsRef = [], wifiNetworks = [], selectedNetwork = None,
      wifiPassword = [], isScanning = False, showPassword = False,
      isConfiguring = False, deviceId = dev, userId = usr, timers = [],
      next_timer = 1, requests = [], alerts = [], released = [], closed = 0\<rparr>"

text \<open>\<^verbatim>\<open>!x\<close> for a string that may be absent.\<close>

definition falsy :: "string option \<Rightarrow> bool" where
  "falsy v = (case v of None \<Rightarrow> True | Some s \<Rightarrow> s = [])"

section \<open>Timers and the bounded fetch\<close>

definition setTimeout :: "nat \<Rightarrow> modal \<Rightarrow> modal \<times> nat" where
  "setTimeout delay st =
     (st\<lparr>timers := (next_timer st, delay) # timers st,
         next_timer := Suc (next_timer st)\<rparr>, next_timer st)"

definition clearTimeout :: "nat \<Rightarrow> modal \<Rightarrow> modal" where
  "clearTimeout tid st = st\<lparr>timers := filter (\<lambda>p. fst p \<noteq> tid) (timers st)\<rparr>"

text \<open>A timer that fires is no longer pending.\<close>

definition timer_fired :: "nat \<Rightarrow> modal \<Rightarrow> modal" where
  "timer_fired tid st = st\<lparr>timers := filter (\<lambda>p. fst p \<noteq> tid) (timers st)\<rparr>"

definition fetch :: "request \<Rightarrow> modal \<Rightarrow> modal" where
  "fetch req st = st\<lparr>requests := requests st @ [req]\<rparr>"

text \<open>
  What ends the wait of \<^verbatim>\<open>fetchWithTimeout\<close>: the underlying fetch resolves, it
  rejects, or the timer fires first and aborts it.
\<close>

datatype 'b fetch_event =
    FetchResolved "'b response"
  | FetchRejected js_error
  | TimerFired

text \<open>
  \<^verbatim>\<open>fetchWithTimeout\<close> up to its \<^verbatim>\<open>await\<close>: the timer is registered, the request is
  handed to \<^verbatim>\<open>fetch\<close>.
\<close>

definition fetchWithTimeout_begin :: "request \<Rightarrow> nat \<Rightarrow> modal \<Rightarrow> modal \<times> nat" where
  "fetchWithTimeout_begin req timeout st =
     (case setTimeout timeout st of (st1, timeoutId) \<Rightarrow> (fetch req st1, timeoutId))"

text \<open>
  \<^verbatim>\<open>fetchWithTimeout\<close> after its \<^verbatim>\<open>await\<close>: both branches clear the timer, then
  return the response or throw the error again. When the timer fired, the abort makes
  the fetch reject with the abort error, which takes the \<^verbatim>\<open>catch\<close> branch.
\<close>

definition fetchWithTimeout_settle ::
  "nat \<Rightarrow> 'b fetch_event \<Rightarrow> modal \<Rightarrow> modal \<times> (js_error + 'b response)" where
  "fetchWithTimeout_settle timeoutId ev st =
     (case ev of
        FetchResolved response \<Rightarrow> (clearTimeout timeoutId st, Inr response)
      | FetchRejected error \<Rightarrow> (clearTimeout timeoutId st, Inl error)
      | TimerFired \<Rightarrow> (clearTimeout timeoutId (timer_fired timeoutId st), Inl abort_error))"

text \<open>
  The device and the network as seen from \<^verbatim>\<open>fetch\<close>: an answer or a failure after so
  many milliseconds, or nothing at all. The timer wins unless the fetch settles strictly
  before the delay.
\<close>

datatype 'b transport =
    Responds nat "'b response"
  | Fails nat js_error
  | Hangs

definition first_event :: "nat \<Rightarrow> 'b transport \<Rightarrow> 'b fetch_event" where
  "first_event delay b =
     (case b of
        Responds t r \<Rightarrow> if t < delay then FetchResolved r else TimerFired
      | Fails t e \<Rightarrow> if t < delay then FetchRejected e else TimerFired
      | Hangs \<Rightarrow> TimerFired)"

definition next_event :: "nat \<Rightarrow> 'b transport \<Rightarrow> modal \<Rightarrow> 'b fetch_event option" where
  "next_event timeoutId b st =
     map_option (\<lambda>delay. first_event delay b) (map_of (timers st) timeoutId)"

section \<open>Releasing timers and listeners\<close>

text \<open>
  Calling a callback records the call; the second component is the exception it raised.
\<close>

definition invoke :: "callback \<Rightarrow> modal \<Rightarrow> modal \<times> js_error option" where
  "invoke cb st =
     (st\<lparr>released := released st @ [cb_id cb]\<rparr>,
      if cb_raises cb then Some (new_Error ''callback failed'') else None)"

text \<open>\<^verbatim>\<open>try { f() } catch (error) { console.log(...) }\<close>\<close>

definition try_invoke :: "callback \<Rightarrow> modal \<Rightarrow> modal \<times> js_error option" where
  "try_invoke cb st =
     (case invoke cb st of (st', None) \<Rightarrow> (st', None) | (st', Some error) \<Rightarrow> (st', None))"

fun forEach_cleanup :: "callback list \<Rightarrow> modal \<Rightarrow> modal \<times> js_error option" where
  "forEach_cleanup [] st = (st, None)"
| "forEach_cleanup (cleanup # cs) st =
     (case try_invoke cleanup st of
        (st', None) \<Rightarrow> forEach_cleanup cs st'
      | (st', Some error) \<Rightarrow> (st', Some error))"

definition cleanupWifiListener :: "modal \<Rightarrow> modal \<times> js_error option" where
  "cleanupWifiListener st =
     (let st1 = (case wifiScanTimerRef st of
                   None \<Rightarrow> st
                 | Some t \<Rightarrow> (clearTimeout t st)\<lparr>wifiScanTimerRef := None\<rparr>)
      in case (case wifiListenerRef st1 of
                 None \<Rightarrow> (st1, None)
               | Some l \<Rightarrow>
                   (case try_invoke l st1 of
                      (s, None) \<Rightarrow> (s\<lparr>wifiListenerRef := None\<rparr>, None)
                    | (s, Some error) \<Rightarrow> (s, Some error))) of
           (st2, Some error) \<Rightarrow> (st2, Some error)
         | (st2, None) \<Rightarrow>
             (case forEach_cleanup (cleanupFunctionsRef st2) st2 of
                (st3, None) \<Rightarrow> (st3\<lparr>cleanupFunctionsRef := []\<rparr>, None)
              | (st3, Some error) \<Rightarrow> (st3, Some error)))"

section \<open>Scanning\<close>

definition scan_request :: request where
  "scan_request =
     \<lparr>req_url = ''http://192.168.4.1/scan'', req_method = ''GET'',
      req_headers = [(''Accept'', ''application/json'')], req_body = None\<rparr>"

definition no_networks_alert :: alert where
  "no_networks_alert =
     \<lparr>alert_title = ''No Networks Found'', alert_text = NoNetworksText,
      alert_closes = False\<rparr>"

definition scan_timeout_alert :: alert where
  "scan_timeout_alert =
     \<lparr>alert_title = ''Scan Timeout'', alert_text = ScanTimeoutText,
      alert_closes = False\<rparr>"

definition scan_failed_alert :: "string \<Rightarrow> alert" where
  "scan_failed_alert m =
     \<lparr>alert_title = ''Scan Failed'', alert_text = ScanFailedText m,
      alert_closes = False\<rparr>"

definition Alert_alert :: "alert \<Rightarrow> modal \<Rightarrow> modal" where
  "Alert_alert a st = st\<lparr>alerts := alerts st @ [a]\<rparr>"

text \<open>
  What \<^verbatim>\<open>scanWifiNetworksViaHTTP\<close> reads from its closure: \<^verbatim>\<open>useCallback\<close> with the
  dependencies \<^verbatim>\<open>[isScanning, userId, cleanupWifiListener]\<close> creates the function anew
  when one of them changes, and each function keeps the values of its own render.
\<close>

record scan_callback =
  seen_isScanning :: bool
  seen_userId :: "string option"

text \<open>The function created by the render of a state.\<close>

definition render_scan :: "modal \<Rightarrow> scan_callback" where
  "render_scan st = \<lparr>seen_isScanning = isScanning st, seen_userId = userId st\<rparr>"

text \<open>
  \<^verbatim>\<open>scanWifiNetworksViaHTTP\<close> up to its first \<^verbatim>\<open>await\<close>. The guard reads the
  captured values, the rest reads and writes the state of the moment of the call. The
  second component is the handle of the timer when a request was issued. An exception
  out of the release would end the call where it is raised.
\<close>

definition scanWifiNetworksViaHTTP_begin ::
  "scan_callback \<Rightarrow> string option \<Rightarrow> modal \<Rightarrow> modal \<times> nat option" where
  "scanWifiNetworksViaHTTP_begin c dev st =
     (if falsy dev \<or> seen_isScanning c \<or> falsy (seen_userId c) then (st, None)
      else
        (case cleanupWifiListener st of
           (st1, Some error) \<Rightarrow> (st1, None)
         | (st1, None) \<Rightarrow>
             if \<not> mountedRef st1 then (st1, None)
             else
               (case fetchWithTimeout_begin scan_request 30000
                       (st1\<lparr>isScanning := True, wifiNetworks := []\<rparr>) of
                  (st2, timeoutId) \<Rightarrow> (st2, Some timeoutId))))"

text \<open>The body of the \<^verbatim>\<open>try\<close> after the fetch has settled; \<open>Inl\<close> is a throw.\<close>

definition scan_try ::
  "js_error + scan_body response \<Rightarrow> modal \<Rightarrow> js_error + modal" where
  "scan_try res st =
     (case res of
        Inl error \<Rightarrow> Inl error
      | Inr response \<Rightarrow>
          if \<not> ok response then Inl (new_Error (http_error_message response))
          else
            (case json response of
               Inl error \<Rightarrow> Inl error
             | Inr data \<Rightarrow>
                 (case (if scan_success data then scan_networks data else None) of
                    Some es \<Rightarrow>
                      Inr (if mountedRef st
                           then st\<lparr>wifiNetworks := validNetworks es, isScanning := False\<rparr>
                           else st)
                  | None \<Rightarrow>
                      Inr (if mountedRef st
                           then Alert_alert no_networks_alert (st\<lparr>isScanning := False\<rparr>)
                           else st))))"

definition scan_catch :: "js_error \<Rightarrow> modal \<Rightarrow> modal" where
  "scan_catch error st =
     (if mountedRef st
      then (if err_name error = ''AbortError''
            then Alert_alert scan_timeout_alert (st\<lparr>isScanning := False\<rparr>)
            else Alert_alert (scan_failed_alert (err_message error))
                   (st\<lparr>isScanning := False\<rparr>))
      else st)"

text \<open>\<^verbatim>\<open>scanWifiNetworksViaHTTP\<close> from the moment the bounded fetch settles.\<close>

definition scanWifiNetworksViaHTTP_resume ::
  "nat \<Rightarrow> scan_body fetch_event \<Rightarrow> modal \<Rightarrow> modal" where
  "scanWifiNetworksViaHTTP_resume timeoutId ev st0 =
     (case fetchWithTimeout_settle timeoutId ev st0 of
        (st, res) \<Rightarrow>
          (case scan_try res st of
             Inl error \<Rightarrow> scan_catch error st
           | Inr st' \<Rightarrow> st'))"

text \<open>
  The scan button: \<^verbatim>\<open>disabled={isScanning || !device?.deviceId}\<close>, and when enabled
  it calls the function of the latest render with \<^verbatim>\<open>device?.deviceId\<close>.
\<close>

definition press_scan :: "modal \<Rightarrow> modal \<times> nat option" where
  "press_scan st =
     (if isScanning st \<or> falsy (deviceId st) then (st, None)
      else scanWifiNetworksViaHTTP_begin (render_scan st) (deviceId st) st)"

text \<open>
  The effect with the dependencies \<^verbatim>\<open>[visible]\<close>, when the modal becomes visible: a
  timer of 500 milliseconds is set whose callback keeps the device and the scan function
  of the render in which the effect ran.
\<close>

record auto_scan =
  as_timer :: nat
  as_callback :: scan_callback
  as_deviceId :: "string option"

definition open_effect :: "modal \<Rightarrow> modal \<times> auto_scan" where
  "open_effect st =
     (case setTimeout 500 st of
        (st1, t) \<Rightarrow>
          (st1, \<lparr>as_timer = t, as_callback = render_scan st, as_deviceId = deviceId st\<rparr>))"

text \<open>
  The callback of that timer:
  \<^verbatim>\<open>if (mountedRef.current && device?.deviceId) scanWifiNetworksViaHTTP(device.deviceId)\<close>
\<close>

definition auto_scan_fires :: "auto_scan \<Rightarrow> modal \<Rightarrow> modal \<times> nat option" where
  "auto_scan_fires a st0 =
     (let st = timer_fired (as_timer a) st0
      in if mountedRef st \<and> \<not> falsy (as_deviceId a)
         then scanWifiNetworksViaHTTP_begin (as_callback a) (as_deviceId a) st
         else (st, None))"

text \<open>
  A whole scan by the function of the latest render against a given transport, nothing
  else happening meanwhile.
\<close>

definition scan_run :: "string option \<Rightarrow> scan_body transport \<Rightarrow> modal \<Rightarrow> modal" where
  "scan_run dev b st =
     (case scanWifiNetworksViaHTTP_begin (render_scan st) dev st of
        (st1, None) \<Rightarrow> st1
      | (st1, Some timeoutId) \<Rightarrow>
          (case next_event timeoutId b st1 of
             None \<Rightarrow> st1
           | Some ev \<Rightarrow> scanWifiNetworksViaHTTP_resume timeoutId ev st1))"

section \<open>Configuring\<close>

definition configure_request :: "config_data \<Rightarrow> request" where
  "configure_request configData =
     \<lparr>req_url = ''http://192.168.4.1/configure'', req_method = ''POST'',
      req_headers = [(''Content-Type'', ''application/json''),
                     (''Accept'', ''application/json'')],
      req_body = Some configData\<rparr>"

definition select_network_alert :: alert where
  "select_network_alert =
     \<lparr>alert_title = ''Error'', alert_text = SelectNetworkText, alert_closes = False\<rparr>"

definition enter_password_alert :: alert where
  "enter_password_alert =
     \<lparr>alert_title = ''Error'', alert_text = EnterPasswordText, alert_closes = False\<rparr>"

definition connected_alert :: "js_string option \<Rightarrow> alert" where
  "connected_alert name =
     \<lparr>alert_title = ''WiFi Connected!'', alert_text = ConnectedText name,
      alert_closes = True\<rparr>"

definition configuration_timeout_alert :: alert where
  "configuration_timeout_alert =
     \<lparr>alert_title = ''Configuration Timeout'', alert_text = ConfigurationTimeoutText,
      alert_closes = False\<rparr>"

definition configuration_failed_alert :: "string \<Rightarrow> alert" where
  "configuration_failed_alert m =
     \<lparr>alert_title = ''Configuration Failed'', alert_text = ConfigurationFailedText m,
      alert_closes = False\<rparr>"

text \<open>
  \<^verbatim>\<open>configureWifiViaHTTP\<close> up to its first \<^verbatim>\<open>await\<close>. When a request was issued, the
  second component holds the timer's handle and the selected network that the rest of
  the call keeps referring to.
\<close>

definition configureWifiViaHTTP_begin :: "modal \<Rightarrow> modal \<times> (nat \<times> network) option" where
  "configureWifiViaHTTP_begin st =
     (case selectedNetwork st of
        None \<Rightarrow> (Alert_alert select_network_alert st, None)
      | Some n \<Rightarrow>
          if falsy (deviceId st) \<or> isConfiguring st \<or> falsy (userId st)
          then (Alert_alert select_network_alert st, None)
          else if encryption n \<noteq> Some ''OPEN'' \<and> wifiPassword st = []
          then (Alert_alert enter_password_alert st, None)
          else
            (case fetchWithTimeout_begin
                    (configure_request \<lparr>cd_ssid = ssid n, cd_password = wifiPassword st\<rparr>)
                    60000 (st\<lparr>isConfiguring := True\<rparr>) of
               (st1, timeoutId) \<Rightarrow> (st1, Some (timeoutId, n))))"

text \<open>\<^verbatim>\<open>result.error || 'Configuration failed'\<close>\<close>

definition error_or_default :: "configure_body \<Rightarrow> string" where
  "error_or_default result =
     (case cfg_error result of
        None \<Rightarrow> ''Configuration failed''
      | Some m \<Rightarrow> if m = [] then ''Configuration failed'' else m)"

definition configure_try ::
  "network \<Rightarrow> js_error + configure_body response \<Rightarrow> modal \<Rightarrow> js_error + modal" where
  "configure_try n res st =
     (case res of
        Inl error \<Rightarrow> Inl error
      | Inr response \<Rightarrow>
          if \<not> ok response then Inl (new_Error (http_error_message response))
          else
            (case json response of
               Inl error \<Rightarrow> Inl error
             | Inr result \<Rightarrow>
                 if cfg_success result
                 then Inr (if mountedRef st
                           then Alert_alert (connected_alert (ssid n))
                                  (st\<lparr>isConfiguring := False\<rparr>)
                           else st)
                 else Inl (new_Error (error_or_default result))))"

definition configure_catch :: "js_error \<Rightarrow> modal \<Rightarrow> modal" where
  "configure_catch error st =
     (if mountedRef st
      then (if err_name error = ''AbortError''
            then Alert_alert configuration_timeout_alert (st\<lparr>isConfiguring := False\<rparr>)
            else Alert_alert (configuration_failed_alert (err_message error))
                   (st\<lparr>isConfiguring := False\<rparr>))
      else st)"

definition configureWifiViaHTTP_resume ::
  "nat \<times> network \<Rightarrow> configure_body fetch_event \<Rightarrow> modal \<Rightarrow> modal" where
  "configureWifiViaHTTP_resume k ev st0 =
     (case fetchWithTimeout_settle (fst k) ev st0 of
        (st, res) \<Rightarrow>
          (case configure_try (snd k) res st of
             Inl error \<Rightarrow> configure_catch error st
           | Inr st' \<Rightarrow> st'))"

definition configure_run :: "configure_body transport \<Rightarrow> modal \<Rightarrow> modal" where
  "configure_run b st =
     (case configureWifiViaHTTP_begin st of
        (st1, None) \<Rightarrow> st1
      | (st1, Some k) \<Rightarrow>
          (case next_event (fst k) b st1 of
             None \<Rightarrow> st1
           | Some ev \<Rightarrow> configureWifiViaHTTP_resume k ev st1))"

section \<open>Closing and unmounting\<close>

definition handleClose :: "modal \<Rightarrow> modal" where
  "handleClose st =
     (case cleanupWifiListener
             (st\<lparr>selectedNetwork := None, wifiPassword := [], wifiNetworks := [],
                 isScanning := False, showPassword := False\<rparr>) of
        (st1, None) \<Rightarrow> st1\<lparr>closed := Suc (closed st1)\<rparr>
      | (st1, Some error) \<Rightarrow> st1)"

text \<open>The button of an alert: only the success alert has a handler.\<close>

definition press_ok :: "alert \<Rightarrow> modal \<Rightarrow> modal" where
  "press_ok a st =
     (if alert_closes a then (if mountedRef st then handleClose st else st) else st)"

text \<open>The effect cleanups that run when the component is unmounted.\<close>

definition unmount :: "modal \<Rightarrow> modal" where
  "unmount st = fst (cleanupWifiListener (st\<lparr>mountedRef := False\<rparr>))"

section \<open>The specification's reading of a scan result\<close>

text \<open>The entries of the array that are objects.\<close>

fun objects :: "network option list \<Rightarrow> network list" where
  "objects [] = []"
| "objects (None # es) = objects es"
| "objects (Some n # es) = n # objects es"

text \<open>An entry is kept when its name is present and not blank.\<close>

definition has_name :: "network \<Rightarrow> bool" where
  "has_name n = (case ssid n of None \<Rightarrow> False | Some s \<Rightarrow> \<not> list_all is_space s)"

text \<open>The signal strength to order by: a missing one counts as -100.\<close>

definition spec_rssi :: "network \<Rightarrow> int" where
  "spec_rssi n = (case rssi n of None \<Rightarrow> - 100 | Some r \<Rightarrow> r)"

definition descending :: "network list \<Rightarrow> bool" where
  "descending ns = sorted_wrt (\<lambda>a b. spec_rssi b \<le> spec_rssi a) ns"

text \<open>The message of a configuration failure: the body's error field when present.\<close>

definition spec_error_message :: "configure_body \<Rightarrow> string" where
  "spec_error_message result =
     (case cfg_error result of None \<Rightarrow> ''Configuration failed'' | Some m \<Rightarrow> m)"

text \<open>A transport settles within a bound when it answers or fails strictly before it.\<close>

definition settles_before :: "nat \<Rightarrow> 'b transport \<Rightarrow> bool" where
  "settles_before delay b =
     (case b of Responds t r \<Rightarrow> t < delay | Fails t e \<Rightarrow> t < delay | Hangs \<Rightarrow> False)"

text \<open>
  The failure paths of a scan: the request is rejected or aborted, the status is not
  2xx, or the body cannot be read.
\<close>

definition scan_failure :: "scan_body fetch_event \<Rightarrow> bool" where
  "scan_failure ev =
     (case ev of
        FetchResolved r \<Rightarrow> (if ok r then isl (json r) else True)
      | FetchRejected e \<Rightarrow> True
      | TimerFired \<Rightarrow> True)"

text \<open>The failure paths of a configure: those of a scan, and a body without success.\<close>

definition configure_failure :: "configure_body fetch_event \<Rightarrow> bool" where
  "configure_failure ev =
     (case ev of
        FetchResolved r \<Rightarrow>
          (if ok r
           then (case json r of Inl e \<Rightarrow> True | Inr result \<Rightarrow> \<not> cfg_success result)
           else True)
      | FetchRejected e \<Rightarrow> True
      | TimerFired \<Rightarrow> True)"

text \<open>Reading a decimal numeral back.\<close>

definition digit_value :: "char \<Rightarrow> nat" where
  "digit_value c = of_char c - 48"

definition nat_of_string :: "string \<Rightarrow> nat" where
  "nat_of_string s = foldl (\<lambda>n c. 10 * n + digit_value c) 0 s"

section \<open>Sample values\<close>

definition home :: network where
  "home = \<lparr>ssid = Some (utf16 ''Home''), rssi = Some (- 55), encryption = Some ''WPA2''\<rparr>"

definition unnamed :: network where
  "unnamed = \<lparr>ssid = Some [], rssi = Some (- 40), encryption = Some ''OPEN''\<rparr>"

definition guest :: network where
  "guest = \<lparr>ssid = Some (utf16 ''Guest''), rssi = Some (- 70), encryption = Some ''OPEN''\<rparr>"

definition blank :: network where
  "blank = \<lparr>ssid = Some [0x20, 0xA0], rssi = Some (- 40), encryption = Some ''OPEN''\<rparr>"

definition nearby :: network where
  "nearby = \<lparr>ssid = Some (utf16 ''Nearby''), rssi = Some 0, encryption = Some ''WPA2''\<rparr>"

definition scan_reply :: "bool \<Rightarrow> network option list \<Rightarrow> scan_body response" where
  "scan_reply s es =
     \<lparr>status = 200, statusText = ''OK'',
      json = Inr \<lparr>scan_success = s, scan_networks = Some es\<rparr>\<rparr>"

definition configure_reply :: "bool \<Rightarrow> string option \<Rightarrow> configure_body response" where
  "configure_reply s e =
     \<lparr>status = 200, statusText = ''OK'',
      json = Inr \<lparr>cfg_success = s, cfg_error = e\<rparr>\<rparr>"

definition status_reply :: "nat \<Rightarrow> string \<Rightarrow> 'b response" where
  "status_reply code txt =
     \<lparr>status = code, statusText = txt,
      json = Inl \<lparr>err_name = ''SyntaxError'', err_message = ''Unexpected token''\<rparr>\<rparr>"

definition unreachable :: js_error where
  "unreachable = \<lparr>err_name = ''TypeError'', err_message = ''Network request failed''\<rparr>"

definition ready :: modal where
  "ready = initial_modal (Some ''meter-1'') (Some ''user-1'')"

section \<open>The list built from a scan response\<close>

lemma mset_insert_sorted: "mset (insert_sorted cmp x ys) = add_mset x (mset ys)"
  by (induction ys) auto

lemma mset_array_sort: "mset (array_sort cmp xs) = mset xs"
  by (induction xs) (auto simp: mset_insert_sorted)

lemma set_insert_sorted: "set (insert_sorted cmp x ys) = insert x (set ys)"
  by (induction ys) auto

lemma sorted_insert_sorted:
  "sorted_wrt (\<lambda>a b. rssi_or_default b \<le> rssi_or_default a) ys \<Longrightarrow>
   sorted_wrt (\<lambda>a b. rssi_or_default b \<le> rssi_or_default a) (insert_sorted compare_rssi x ys)"
  by (induction ys) (auto simp: set_insert_sorted compare_rssi_def)

lemma sorted_array_sort:
  "sorted_wrt (\<lambda>a b. rssi_or_default b \<le> rssi_or_default a) (array_sort compare_rssi xs)"
  by (induction xs) (auto simp: sorted_insert_sorted)

lemma dropWhile_all: "(\<forall>x\<in>set (dropWhile P s). P x) \<longleftrightarrow> (\<forall>x\<in>set s. P x)"
  by (induction s) auto

lemma trim_empty_iff: "trim s = [] \<longleftrightarrow> list_all is_space s"
  by (simp add: trim_def dropWhile_eq_Nil_conv dropWhile_all list_all_iff)

lemma network_filter_has_name: "network_filter (Some n) = has_name n"
  by (auto simp: network_filter_def has_name_def trim_empty_iff split: option.splits)

lemma filter_networks_eq: "filter_networks es = filter has_name (objects es)"
  by (induction es rule: filter_networks.induct) (auto simp: network_filter_has_name)

lemma rssi_or_default_spec: "rssi n \<noteq> Some 0 \<Longrightarrow> rssi_or_default n = spec_rssi n"
  by (auto simp: rssi_or_default_def spec_rssi_def split: option.splits)

lemma validNetworks_mset: "mset (validNetworks es) = mset (filter has_name (objects es))"
  by (simp add: validNetworks_def mset_array_sort filter_networks_eq)

lemma validNetworks_descending:
  assumes "list_all (\<lambda>n. rssi n \<noteq> Some 0) (filter has_name (objects es))"
  shows "descending (validNetworks es)"
proof -
  have mem: "n \<in> set (validNetworks es) \<Longrightarrow> rssi n \<noteq> Some 0" for n
  proof -
    assume "n \<in> set (validNetworks es)"
    then have "n \<in># mset (validNetworks es)" by simp
    then have "n \<in> set (filter has_name (objects es))"
      by (simp only: validNetworks_mset set_mset_mset)
    then show ?thesis using assms by (simp add: list_all_iff)
  qed
  have "sorted_wrt (\<lambda>a b. rssi_or_default b \<le> rssi_or_default a) (validNetworks es)"
    by (simp add: validNetworks_def sorted_array_sort)
  then show ?thesis
    unfolding descending_def
    by (rule sorted_wrt_mono_rel [rotated]) (simp add: rssi_or_default_spec mem)
qed

lemma scan_resume_success:
  assumes "ok r" "json r = Inr data" "scan_success data" "scan_networks data = Some es"
    "mountedRef st"
  shows "scanWifiNetworksViaHTTP_resume tid (FetchResolved r) st =
           (clearTimeout tid st)\<lparr>wifiNetworks := validNetworks es, isScanning := False\<rparr>"
  using assms
  by (simp add: scanWifiNetworksViaHTTP_resume_def fetchWithTimeout_settle_def scan_try_def
      clearTimeout_def)


text \<open>
  What the rest of the scan does with a response that is 2xx, reports success and holds
  an array, while the flow is mounted: the list shown holds exactly the entries that are
  objects with a name that is present and not blank, whatever was listed before is gone,
  and scanning has ended. As long as no entry that is kept reports a strength of zero,
  the list is in descending order of strength, a missing strength counting as -100.
\<close>

lemma scan_success_replaces_networks:
  assumes "ok r" and "json r = Inr data" and "scan_success data"
    and "scan_networks data = Some es" and "mountedRef st"
  shows "mset (wifiNetworks (scanWifiNetworksViaHTTP_resume tid (FetchResolved r) st)) =
           mset (filter has_name (objects es)) \<and>
         \<not> isScanning (scanWifiNetworksViaHTTP_resume tid (FetchResolved r) st) \<and>
         (list_all (\<lambda>n. rssi n \<noteq> Some 0) (filter has_name (objects es)) \<longrightarrow>
          descending (wifiNetworks (scanWifiNetworksViaHTTP_resume tid (FetchResolved r) st)))"
proof -
  have "scanWifiNetworksViaHTTP_resume tid (FetchResolved r) st =
          (clearTimeout tid st)\<lparr>wifiNetworks := validNetworks es, isScanning := False\<rparr>"
    using assms by (rule scan_resume_success)
  then show ?thesis
    by (simp add: validNetworks_mset validNetworks_descending)
qed

lemma blank_name_is_dropped:
  "wifiNetworks (scan_run (Some ''meter-1'')
     (Responds 100 (scan_reply True [Some home, Some unnamed, Some blank, None, Some guest]))
     ready) = [home, guest]"
  by (simp add: blank_def home_def guest_def unnamed_def utf16_def scan_run_def
      scanWifiNetworksViaHTTP_begin_def render_scan_def
      falsy_def ready_def initial_modal_def cleanupWifiListener_def fetchWithTimeout_begin_def
      setTimeout_def fetch_def next_event_def first_event_def scanWifiNetworksViaHTTP_resume_def
      fetchWithTimeout_settle_def clearTimeout_def scan_try_def ok_def scan_reply_def
      validNetworks_def network_filter_def trim_def is_space_def compare_rssi_def
      rssi_or_default_def)

text \<open>
  Claim C1. The list a successful scan exposes is to be in descending order of signal
  strength, only a missing strength counting as -100. The comparator takes its default
  with \<^verbatim>\<open>||\<close>, which also replaces a reported strength of zero: a network reported
  at 0 dBm is ordered as if it were at -100 and ends up behind one at -70, so the list
  below is not in descending order.
\<close>

theorem zero_rssi_breaks_descending_order:
  "wifiNetworks (scan_run (Some ''meter-1'')
     (Responds 100 (scan_reply True [Some nearby, Some guest])) ready) = [guest, nearby] \<and>
   spec_rssi guest < spec_rssi nearby \<and>
   descending [guest, nearby] = False \<and>
   descending [nearby, guest]"
  by (simp add: nearby_def guest_def utf16_def scan_run_def
      scanWifiNetworksViaHTTP_begin_def render_scan_def
      falsy_def ready_def initial_modal_def cleanupWifiListener_def fetchWithTimeout_begin_def
      setTimeout_def fetch_def next_event_def first_event_def scanWifiNetworksViaHTTP_resume_def
      fetchWithTimeout_settle_def clearTimeout_def scan_try_def ok_def scan_reply_def
      validNetworks_def network_filter_def trim_def is_space_def compare_rssi_def
      rssi_or_default_def spec_rssi_def descending_def)

section \<open>Decimal numerals in messages\<close>

lemma digit_value_digit_char: "d < 10 \<Longrightarrow> digit_value (digit_char d) = d"
proof -
  assume "d < 10"
  then have "d \<in> {0, 1, 2, 3, 4, 5, 6, 7, 8, 9}" by auto
  then show ?thesis
    by (auto simp: digit_value_def digit_char_def)
qed

lemma nat_of_string_snoc: "nat_of_string (s @ [c]) = 10 * nat_of_string s + digit_value c"
  by (simp add: nat_of_string_def)

lemma nat_of_string_of_nat: "nat_of_string (string_of_nat n) = n"
proof (induction n rule: string_of_nat.induct)
  case (1 n)
  show ?case
  proof (cases "n < 10")
    case True
    then show ?thesis
      using nat_of_string_snoc [of "[]" "digit_char n"]
      by (simp add: string_of_nat.simps [of n] digit_value_digit_char nat_of_string_def)
  next
    case False
    then have "nat_of_string (string_of_nat (n div 10)) = n div 10"
      using "1.IH" by simp
    with False show ?thesis
      by (simp add: string_of_nat.simps [of n] nat_of_string_snoc digit_value_digit_char)
  qed
qed

section \<open>Facts about the release, the bounded fetch and the two calls\<close>

lemma try_invoke_eq: "try_invoke cb st = (st\<lparr>released := released st @ [cb_id cb]\<rparr>, None)"
  by (simp add: try_invoke_def invoke_def)

lemma forEach_cleanup_eq:
  "forEach_cleanup cs st = (st\<lparr>released := released st @ map cb_id cs\<rparr>, None)"
  by (induction cs arbitrary: st) (simp_all add: try_invoke_eq)

lemma cleanupWifiListener_eq:
  "cleanupWifiListener st =
     (st\<lparr>wifiScanTimerRef := None, wifiListenerRef := None, cleanupFunctionsRef := [],
         timers := (case wifiScanTimerRef st of
                      None \<Rightarrow> timers st
                    | Some t \<Rightarrow> filter (\<lambda>p. fst p \<noteq> t) (timers st)),
         released := released st @
                     (case wifiListenerRef st of None \<Rightarrow> [] | Some l \<Rightarrow> [cb_id l]) @
                     map cb_id (cleanupFunctionsRef st)\<rparr>, None)"
  by (cases st)
    (simp add: cleanupWifiListener_def try_invoke_eq forEach_cleanup_eq clearTimeout_def
      split: option.splits)

lemma cleanup_again:
  "cleanupWifiListener (fst (cleanupWifiListener st)) = (fst (cleanupWifiListener st), None)"
  by (cases st) (simp add: cleanupWifiListener_eq)

lemma settle_state: "fst (fetchWithTimeout_settle tid ev st) = clearTimeout tid st"
  by (cases ev) (simp_all add: fetchWithTimeout_settle_def clearTimeout_def timer_fired_def)

lemma settle_result:
  "snd (fetchWithTimeout_settle tid ev st) =
     (case ev of FetchResolved r \<Rightarrow> Inr r | FetchRejected e \<Rightarrow> Inl e | TimerFired \<Rightarrow> Inl abort_error)"
  by (cases ev) (simp_all add: fetchWithTimeout_settle_def)

lemma cleared_not_pending: "tid \<notin> fst ` set (timers (clearTimeout tid st))"
  by (auto simp: clearTimeout_def)

lemma scan_resume_unmounted:
  "\<not> mountedRef st \<Longrightarrow> scanWifiNetworksViaHTTP_resume tid ev st = clearTimeout tid st"
  by (cases ev)
    (simp_all add: scanWifiNetworksViaHTTP_resume_def fetchWithTimeout_settle_def scan_try_def
      scan_catch_def clearTimeout_def timer_fired_def split: sum.splits option.splits)

lemma configure_resume_unmounted:
  "\<not> mountedRef st \<Longrightarrow> configureWifiViaHTTP_resume k ev st = clearTimeout (fst k) st"
  by (cases ev)
    (simp_all add: configureWifiViaHTTP_resume_def fetchWithTimeout_settle_def configure_try_def
      configure_catch_def clearTimeout_def timer_fired_def split: sum.splits option.splits)

lemma scan_begin_ready:
  assumes "\<not> falsy dev" and "\<not> isScanning st" and "\<not> falsy (userId st)" and "mountedRef st"
  shows "scanWifiNetworksViaHTTP_begin (render_scan st) dev st =
           ((fst (cleanupWifiListener st))
              \<lparr>isScanning := True, wifiNetworks := [],
               timers := (next_timer st, 30000) # timers (fst (cleanupWifiListener st)),
               next_timer := Suc (next_timer st),
               requests := requests st @ [scan_request]\<rparr>, Some (next_timer st))"
  using assms
  by (simp add: scanWifiNetworksViaHTTP_begin_def render_scan_def cleanupWifiListener_eq
      fetchWithTimeout_begin_def setTimeout_def fetch_def)

lemma scan_run_ready:
  assumes "\<not> falsy dev" and "\<not> isScanning st" and "\<not> falsy (userId st)" and "mountedRef st"
  shows "scan_run dev b st =
           scanWifiNetworksViaHTTP_resume (next_timer st) (first_event 30000 b)
             (fst (scanWifiNetworksViaHTTP_begin (render_scan st) dev st))"
  using assms by (simp add: scan_run_def scan_begin_ready next_event_def)

lemma configure_begin_ready:
  assumes "selectedNetwork st = Some n" and "\<not> falsy (deviceId st)"
    and "\<not> isConfiguring st" and "\<not> falsy (userId st)"
    and "encryption n = Some ''OPEN'' \<or> wifiPassword st \<noteq> []"
  shows "configureWifiViaHTTP_begin st =
           (st\<lparr>isConfiguring := True,
               timers := (next_timer st, 60000) # timers st,
               next_timer := Suc (next_timer st),
               requests := requests st @
                 [configure_request \<lparr>cd_ssid = ssid n, cd_password = wifiPassword st\<rparr>]\<rparr>,
            Some (next_timer st, n))"
  using assms
  by (auto simp: configureWifiViaHTTP_begin_def fetchWithTimeout_begin_def setTimeout_def
      fetch_def)

lemma configure_run_ready:
  assumes "selectedNetwork st = Some n" and "\<not> falsy (deviceId st)"
    and "\<not> isConfiguring st" and "\<not> falsy (userId st)"
    and "encryption n = Some ''OPEN'' \<or> wifiPassword st \<noteq> []"
  shows "configure_run b st =
           configureWifiViaHTTP_resume (next_timer st, n) (first_event 60000 b)
             (fst (configureWifiViaHTTP_begin st))"
  using assms by (simp add: configure_run_def configure_begin_ready next_event_def)

lemma scan_resume_throw:
  assumes "mountedRef st"
    and "scan_try (snd (fetchWithTimeout_settle tid ev st)) (clearTimeout tid st) = Inl e"
  shows "scanWifiNetworksViaHTTP_resume tid ev st =
           Alert_alert (if err_name e = ''AbortError'' then scan_timeout_alert
                        else scan_failed_alert (err_message e))
             ((clearTimeout tid st)\<lparr>isScanning := False\<rparr>)"
proof -
  have "scanWifiNetworksViaHTTP_resume tid ev st = scan_catch e (clearTimeout tid st)"
    using assms(2)
    by (simp add: scanWifiNetworksViaHTTP_resume_def case_prod_beta settle_state)
  then show ?thesis
    using assms(1) by (simp add: scan_catch_def clearTimeout_def)
qed

lemma configure_resume_throw:
  assumes "mountedRef st"
    and "configure_try n (snd (fetchWithTimeout_settle tid ev st)) (clearTimeout tid st) = Inl e"
  shows "configureWifiViaHTTP_resume (tid, n) ev st =
           Alert_alert (if err_name e = ''AbortError'' then configuration_timeout_alert
                        else configuration_failed_alert (err_message e))
             ((clearTimeout tid st)\<lparr>isConfiguring := False\<rparr>)"
proof -
  have "configureWifiViaHTTP_resume (tid, n) ev st = configure_catch e (clearTimeout tid st)"
    using assms(2)
    by (simp add: configureWifiViaHTTP_resume_def case_prod_beta settle_state)
  then show ?thesis
    using assms(1) by (simp add: configure_catch_def clearTimeout_def)
qed

lemma scan_try_status:
  "\<not> ok r \<Longrightarrow> scan_try (Inr r) st = Inl (new_Error (http_error_message r))"
  by (simp add: scan_try_def)

lemma configure_try_status:
  "\<not> ok r \<Longrightarrow> configure_try n (Inr r) st = Inl (new_Error (http_error_message r))"
  by (simp add: configure_try_def)

lemma new_Error_sel: "err_name (new_Error m) = ''Error''" "err_message (new_Error m) = m"
  by (simp_all add: new_Error_def)

text \<open>Closing the flow resets the state and releases, and leaves the liveness flag up.\<close>

lemma handleClose_keeps_flag: "mountedRef (handleClose st) = mountedRef st"
  by (simp add: handleClose_def cleanupWifiListener_eq)

section \<open>Calls that are turned away\<close>

text \<open>
  The guard of the scan. A function that saw a scan in flight or no user, or that is
  given no device, returns at once: no request, no timer, the state as it was. For the
  function of the latest render, what it saw is the current state.
\<close>

lemma scan_guard_is_noop:
  assumes "falsy dev \<or> seen_isScanning c \<or> falsy (seen_userId c)"
  shows "scanWifiNetworksViaHTTP_begin c dev st = (st, None)"
  using assms by (auto simp: scanWifiNetworksViaHTTP_begin_def)

lemma scan_run_rejected:
  assumes "falsy dev \<or> isScanning st \<or> falsy (userId st)"
  shows "scan_run dev b st = st"
  using assms by (simp add: scan_run_def scan_guard_is_noop render_scan_def)

text \<open>
  Claim C6. A scan requested while one is in flight is to be turned away with nothing
  changed. The modal opens and its effect sets the 500 millisecond timer, whose callback
  keeps the scan function of that render, created when no scan was running. The user
  presses the scan button before the timer fires: a request is issued and scanning is
  on. Then the timer fires and calls the function it kept, whose guard still reads the
  scanning flag as off: a second request is issued and a second timer set while the
  first request is outstanding.
\<close>

theorem stale_auto_scan_starts_second_scan:
  "isScanning (fst (press_scan (fst (open_effect ready)))) \<and>
   requests (fst (press_scan (fst (open_effect ready)))) = [scan_request] \<and>
   seen_isScanning (as_callback (snd (open_effect ready))) = False \<and>
   snd (auto_scan_fires (snd (open_effect ready))
          (fst (press_scan (fst (open_effect ready))))) = Some 3 \<and>
   requests (fst (auto_scan_fires (snd (open_effect ready))
                    (fst (press_scan (fst (open_effect ready)))))) =
     [scan_request, scan_request] \<and>
   timers (fst (auto_scan_fires (snd (open_effect ready))
                  (fst (press_scan (fst (open_effect ready)))))) =
     [(3, 30000), (2, 30000)]"
  by (simp add: open_effect_def press_scan_def auto_scan_fires_def timer_fired_def
      render_scan_def scanWifiNetworksViaHTTP_begin_def cleanupWifiListener_eq
      fetchWithTimeout_begin_def setTimeout_def fetch_def falsy_def ready_def
      initial_modal_def Let_def)

text \<open>
  Closing the flow turns the scanning flag off while the request stays outstanding, so
  a scan pressed after that is accepted as well.
\<close>

lemma scan_after_close_is_accepted:
  "requests (fst (press_scan (handleClose (fst (press_scan ready))))) =
     [scan_request, scan_request]"
  by (simp add: press_scan_def handleClose_def render_scan_def
      scanWifiNetworksViaHTTP_begin_def cleanupWifiListener_eq fetchWithTimeout_begin_def
      setTimeout_def fetch_def falsy_def ready_def initial_modal_def)

text \<open>
  Claim C2. With a network selected whose encryption is not \<^verbatim>\<open>OPEN\<close> and an empty
  password, configure ends in its validation: the user is shown an alert titled
  \<^verbatim>\<open>Error\<close> (the password one when the first check passes, the selection one when
  the device, the user or the in-flight check already fails), no request is handed to
  the transport, no timer is set and the in-flight flag is left as it was.
\<close>

theorem configure_without_password_rejected:
  assumes "selectedNetwork st = Some n" and "encryption n \<noteq> Some ''OPEN''"
    and "wifiPassword st = []"
  shows "configureWifiViaHTTP_begin st =
           (Alert_alert (if falsy (deviceId st) \<or> isConfiguring st \<or> falsy (userId st)
                         then select_network_alert else enter_password_alert) st, None) \<and>
         configure_run b st = fst (configureWifiViaHTTP_begin st) \<and>
         requests (configure_run b st) = requests st \<and>
         timers (configure_run b st) = timers st \<and>
         isConfiguring (configure_run b st) = isConfiguring st \<and>
         alert_title (last (alerts (configure_run b st))) = ''Error''"
  using assms
  by (simp add: configureWifiViaHTTP_begin_def configure_run_def Alert_alert_def
      select_network_alert_def enter_password_alert_def)

theorem configure_without_password_rejected_witness:
  "configure_run (Responds 5 (configure_reply True None)) (ready\<lparr>selectedNetwork := Some home\<rparr>) =
     Alert_alert enter_password_alert (ready\<lparr>selectedNetwork := Some home\<rparr>) \<and>
   requests (configure_run (Responds 5 (configure_reply True None))
     (ready\<lparr>selectedNetwork := Some home\<rparr>)) = []"
proof -
  have h1: "selectedNetwork (ready\<lparr>selectedNetwork := Some home\<rparr>) = Some home"
    by simp
  have h2: "encryption home \<noteq> Some ''OPEN''"
    by (simp add: home_def)
  have h3: "wifiPassword (ready\<lparr>selectedNetwork := Some home\<rparr>) = []"
    by (simp add: ready_def initial_modal_def)
  have h4: "\<not> (falsy (deviceId (ready\<lparr>selectedNetwork := Some home\<rparr>)) \<or>
                isConfiguring (ready\<lparr>selectedNetwork := Some home\<rparr>) \<or>
                falsy (userId (ready\<lparr>selectedNetwork := Some home\<rparr>)))"
    by (simp add: ready_def initial_modal_def falsy_def)
  have h5: "requests (ready\<lparr>selectedNetwork := Some home\<rparr>) = []"
    by (simp add: ready_def initial_modal_def)
  from configure_without_password_rejected [OF h1 h2 h3, of "Responds 5 (configure_reply True None)"]
  show ?thesis
    using h4 h5 by (simp add: Alert_alert_def)
qed

section \<open>The timer of the bounded fetch\<close>

text \<open>
  Claim C10. However the wait of the bounded fetch ends, the timer it registered is no
  longer pending afterwards and nothing else of the state is touched; a response is
  returned as it is, a rejection is thrown again as it is, and when the timer fired
  the rejection is the abort. The handle returned on registration is pending until then.
\<close>

theorem fetchWithTimeout_clears_timer:
  "snd (fetchWithTimeout_settle tid (FetchResolved r) st) = Inr (r :: 'b response) \<and>
   snd (fetchWithTimeout_settle tid (FetchRejected e :: 'b fetch_event) st) = Inl e \<and>
   snd (fetchWithTimeout_settle tid (TimerFired :: 'b fetch_event) st) = Inl abort_error \<and>
   tid \<notin> fst ` set (timers (fst (fetchWithTimeout_settle tid (ev :: 'b fetch_event) st))) \<and>
   fst (fetchWithTimeout_settle tid ev st) =
     st\<lparr>timers := filter (\<lambda>p. fst p \<noteq> tid) (timers st)\<rparr> \<and>
   snd (fetchWithTimeout_begin req d st0) \<in>
     fst ` set (timers (fst (fetchWithTimeout_begin req d st0)))"
  by (simp add: settle_result settle_state cleared_not_pending)
    (simp add: clearTimeout_def fetchWithTimeout_begin_def setTimeout_def fetch_def)

theorem fetchWithTimeout_clears_timer_witness:
  "timers (fst (fetchWithTimeout_settle 1 (FetchRejected unreachable :: scan_body fetch_event)
      (ready\<lparr>timers := [(1, 30000)]\<rparr>))) = [] \<and>
   snd (fetchWithTimeout_settle 1 (FetchRejected unreachable :: scan_body fetch_event)
      (ready\<lparr>timers := [(1, 30000)]\<rparr>)) = Inl unreachable \<and>
   snd (fetchWithTimeout_settle 1 (FetchResolved (scan_reply True []))
      (ready\<lparr>timers := [(1, 30000)]\<rparr>)) = Inr (scan_reply True [])"
  using fetchWithTimeout_clears_timer [of 1 "scan_reply True []" "ready\<lparr>timers := [(1, 30000)]\<rparr>"
      unreachable "FetchRejected unreachable" scan_request 30000 ready]
  by simp

section \<open>After the component is unmounted\<close>

text \<open>
  Claim C5, as the code has it. The liveness flag is the one of the mounted component.
  Once it is down, as it is after unmounting, the rest of an outstanding scan or
  configure writes nothing: whatever the outcome, the state differs at most in the
  pending timers, from which the call's own timer is removed, and no alert is shown.
  The button of the success alert does nothing either.
\<close>

theorem no_write_after_unmount:
  assumes "\<not> mountedRef st"
  shows "scanWifiNetworksViaHTTP_resume tid ev st =
           st\<lparr>timers := filter (\<lambda>p. fst p \<noteq> tid) (timers st)\<rparr> \<and>
         configureWifiViaHTTP_resume (tid, n) ev' st =
           st\<lparr>timers := filter (\<lambda>p. fst p \<noteq> tid) (timers st)\<rparr> \<and>
         press_ok a st = st \<and>
         \<not> mountedRef (unmount st')"
  using assms
  by (simp add: scan_resume_unmounted configure_resume_unmounted clearTimeout_def press_ok_def
      unmount_def cleanupWifiListener_eq)


theorem no_write_after_unmount_witness:
  "scanWifiNetworksViaHTTP_resume 1 (FetchResolved (scan_reply True [Some home]))
     (unmount (ready\<lparr>isScanning := True, timers := [(1, 30000)]\<rparr>)) =
   (unmount (ready\<lparr>isScanning := True, timers := [(1, 30000)]\<rparr>))\<lparr>timers := []\<rparr> \<and>
   isScanning (scanWifiNetworksViaHTTP_resume 1 (FetchResolved (scan_reply True [Some home]))
     (unmount (ready\<lparr>isScanning := True, timers := [(1, 30000)]\<rparr>)))"
proof -
  let ?st = "unmount (ready\<lparr>isScanning := True, timers := [(1, 30000)]\<rparr>)"
  have h: "\<not> mountedRef ?st"
    by (simp add: unmount_def cleanupWifiListener_eq)
  have t: "timers ?st = [(1, 30000)]" and s: "isScanning ?st"
    by (simp_all add: unmount_def cleanupWifiListener_eq ready_def initial_modal_def)
  from no_write_after_unmount [OF h, of 1 "FetchResolved (scan_reply True [Some home])"]
  show ?thesis
    using t s by simp
qed

text \<open>
  Claim C5 as written also covers a flow that was closed. Closing resets the state and
  leaves the flag up, and the request is not cancelled: a scan that resolves after the
  flow was closed puts its networks into the list that closing had emptied.
\<close>

theorem close_then_resolve_counterexample:
  "mountedRef (handleClose (fst (press_scan ready))) \<and>
   closed (handleClose (fst (press_scan ready))) = 1 \<and>
   wifiNetworks (handleClose (fst (press_scan ready))) = [] \<and>
   wifiNetworks (scanWifiNetworksViaHTTP_resume 1 (FetchResolved (scan_reply True [Some home]))
     (handleClose (fst (press_scan ready)))) = [home]"
  by (simp add: press_scan_def handleClose_def render_scan_def
      scanWifiNetworksViaHTTP_begin_def cleanupWifiListener_eq fetchWithTimeout_begin_def
      setTimeout_def fetch_def falsy_def ready_def initial_modal_def
      scanWifiNetworksViaHTTP_resume_def fetchWithTimeout_settle_def clearTimeout_def
      scan_try_def ok_def scan_reply_def validNetworks_def network_filter_def trim_def
      is_space_def home_def utf16_def)

section \<open>Releasing twice\<close>

text \<open>
  Claim C9, as the code has it. The release never raises, also when a listener or a
  cleanup function does. It clears the timer held in the scan timer ref, calls the
  listener held in the listener ref and every registered cleanup function once, in that
  order, and empties the three refs; a second release therefore changes nothing, and
  unmounting twice is unmounting once. Timers that are not held in the ref, such as the
  one of a bounded fetch in flight, are left pending.
\<close>

theorem release_is_idempotent:
  "snd (cleanupWifiListener st) = None \<and>
   cleanupWifiListener (fst (cleanupWifiListener st)) = (fst (cleanupWifiListener st), None) \<and>
   released (fst (cleanupWifiListener st)) =
     released st @ (case wifiListenerRef st of None \<Rightarrow> [] | Some l \<Rightarrow> [cb_id l]) @
     map cb_id (cleanupFunctionsRef st) \<and>
   timers (fst (cleanupWifiListener st)) =
     (case wifiScanTimerRef st of
        None \<Rightarrow> timers st
      | Some t \<Rightarrow> filter (\<lambda>p. fst p \<noteq> t) (timers st)) \<and>
   wifiScanTimerRef (fst (cleanupWifiListener st)) = None \<and>
   wifiListenerRef (fst (cleanupWifiListener st)) = None \<and>
   cleanupFunctionsRef (fst (cleanupWifiListener st)) = [] \<and>
   unmount (unmount st) = unmount st"
proof -
  have never: "snd (cleanupWifiListener st) = None"
    by (simp add: cleanupWifiListener_eq)
  have again: "cleanupWifiListener (fst (cleanupWifiListener st)) =
                 (fst (cleanupWifiListener st), None)"
    by (rule cleanup_again)
  have twice: "unmount (unmount st) = unmount st"
    by (simp add: unmount_def cleanupWifiListener_eq)
  have "released (fst (cleanupWifiListener st)) =
          released st @ (case wifiListenerRef st of None \<Rightarrow> [] | Some l \<Rightarrow> [cb_id l]) @
          map cb_id (cleanupFunctionsRef st)"
    and "timers (fst (cleanupWifiListener st)) =
          (case wifiScanTimerRef st of
             None \<Rightarrow> timers st
           | Some t \<Rightarrow> filter (\<lambda>p. fst p \<noteq> t) (timers st))"
    and "wifiScanTimerRef (fst (cleanupWifiListener st)) = None"
    and "wifiListenerRef (fst (cleanupWifiListener st)) = None"
    and "cleanupFunctionsRef (fst (cleanupWifiListener st)) = []"
    by (simp_all add: cleanupWifiListener_eq)
  with never again twice show ?thesis
    by simp
qed

theorem release_is_idempotent_witness:
  "released (fst (cleanupWifiListener
      (ready\<lparr>wifiScanTimerRef := Some 7, timers := [(7, 500), (8, 30000)],
             wifiListenerRef := Some \<lparr>cb_id = 3, cb_raises = True\<rparr>,
             cleanupFunctionsRef := [\<lparr>cb_id = 4, cb_raises = False\<rparr>,
                                     \<lparr>cb_id = 5, cb_raises = True\<rparr>]\<rparr>))) = [3, 4, 5] \<and>
   timers (fst (cleanupWifiListener
      (ready\<lparr>wifiScanTimerRef := Some 7, timers := [(7, 500), (8, 30000)],
             wifiListenerRef := Some \<lparr>cb_id = 3, cb_raises = True\<rparr>,
             cleanupFunctionsRef := [\<lparr>cb_id = 4, cb_raises = False\<rparr>,
                                     \<lparr>cb_id = 5, cb_raises = True\<rparr>]\<rparr>))) = [(8, 30000)] \<and>
   snd (cleanupWifiListener
      (ready\<lparr>wifiScanTimerRef := Some 7, timers := [(7, 500), (8, 30000)],
             wifiListenerRef := Some \<lparr>cb_id = 3, cb_raises = True\<rparr>,
             cleanupFunctionsRef := [\<lparr>cb_id = 4, cb_raises = False\<rparr>,
                                     \<lparr>cb_id = 5, cb_raises = True\<rparr>]\<rparr>)) = None"
  using release_is_idempotent
    [of "ready\<lparr>wifiScanTimerRef := Some 7, timers := [(7, 500), (8, 30000)],
             wifiListenerRef := Some \<lparr>cb_id = 3, cb_raises = True\<rparr>,
             cleanupFunctionsRef := [\<lparr>cb_id = 4, cb_raises = False\<rparr>,
                                     \<lparr>cb_id = 5, cb_raises = True\<rparr>]\<rparr>"]
  by (simp add: ready_def initial_modal_def)

text \<open>
  Claim C9 as written has every outstanding timer released at teardown. The timer of a
  scan in flight is still pending after the component is unmounted.
\<close>

theorem fetch_timer_survives_unmount_counterexample:
  "timers (unmount (fst (scanWifiNetworksViaHTTP_begin (render_scan ready) (Some ''meter-1'')
      ready))) =
     [(1, 30000)]"
  by (simp add: unmount_def cleanupWifiListener_eq scanWifiNetworksViaHTTP_begin_def render_scan_def falsy_def
      ready_def initial_modal_def fetchWithTimeout_begin_def setTimeout_def fetch_def)

section \<open>Responses with a status outside 200 to 299\<close>

text \<open>
  Claim C8. A response whose status is not 2xx makes both calls throw an error whose
  message is \<^verbatim>\<open>HTTP\<close>, the status code in decimal, a colon and the status text; the
  code can be read back from the numeral. While the flow is mounted the error is shown
  in the failure alert and the in-flight flag of the call is reset.
\<close>

theorem non_2xx_fails_with_status:
  assumes "\<not> ok r" and "\<not> ok r'" and "mountedRef st"
  shows "scan_try (Inr r) st =
           Inl (new_Error (''HTTP '' @ string_of_nat (status r) @ '': '' @ statusText r)) \<and>
         scanWifiNetworksViaHTTP_resume tid (FetchResolved r) st =
           Alert_alert
             (scan_failed_alert (''HTTP '' @ string_of_nat (status r) @ '': '' @ statusText r))
             ((clearTimeout tid st)\<lparr>isScanning := False\<rparr>) \<and>
         configure_try n (Inr r') st =
           Inl (new_Error (''HTTP '' @ string_of_nat (status r') @ '': '' @ statusText r')) \<and>
         configureWifiViaHTTP_resume (tid, n) (FetchResolved r') st =
           Alert_alert
             (configuration_failed_alert
                (''HTTP '' @ string_of_nat (status r') @ '': '' @ statusText r'))
             ((clearTimeout tid st)\<lparr>isConfiguring := False\<rparr>) \<and>
         nat_of_string (string_of_nat (status r)) = status r \<and>
         nat_of_string (string_of_nat (status r')) = status r'"
proof -
  have s: "scan_try (snd (fetchWithTimeout_settle tid (FetchResolved r) st)) (clearTimeout tid st) =
             Inl (new_Error (http_error_message r))"
    using assms(1) by (simp add: settle_result scan_try_status)
  have c: "configure_try n (snd (fetchWithTimeout_settle tid (FetchResolved r') st))
             (clearTimeout tid st) = Inl (new_Error (http_error_message r'))"
    using assms(2) by (simp add: settle_result configure_try_status)
  show ?thesis
    using scan_resume_throw [OF assms(3) s] configure_resume_throw [OF assms(3) c] assms(1,2)
    by (simp add: scan_try_status configure_try_status new_Error_sel http_error_message_def
        nat_of_string_of_nat)
qed

theorem non_2xx_fails_with_status_witness:
  "alerts (configureWifiViaHTTP_resume (1, home)
      (FetchResolved (status_reply 500 ''Internal Server Error''))
      (ready\<lparr>isConfiguring := True, timers := [(1, 60000)]\<rparr>)) =
     [configuration_failed_alert ''HTTP 500: Internal Server Error''] \<and>
   isConfiguring (configureWifiViaHTTP_resume (1, home)
      (FetchResolved (status_reply 500 ''Internal Server Error''))
      (ready\<lparr>isConfiguring := True, timers := [(1, 60000)]\<rparr>)) = False"
proof -
  have h1: "\<not> ok (status_reply 500 ''Internal Server Error'' :: scan_body response)"
    and h2: "\<not> ok (status_reply 500 ''Internal Server Error'' :: configure_body response)"
    by (simp_all add: ok_def status_reply_def)
  have h3: "mountedRef (ready\<lparr>isConfiguring := True, timers := [(1, 60000)]\<rparr>)"
    by (simp add: ready_def initial_modal_def)
  have s: "string_of_nat 500 = ''500''"
    by (simp add: string_of_nat.simps digit_char_def)
  have a: "alerts (ready\<lparr>isConfiguring := True, timers := [(1, 60000)]\<rparr>) = []"
    by (simp add: ready_def initial_modal_def)
  from non_2xx_fails_with_status [OF h1 h2 h3, of 1 home]
  show ?thesis
    using a by (simp add: status_reply_def s Alert_alert_def clearTimeout_def)
qed

section \<open>A body that reports no success\<close>

text \<open>
  Claim C3, as the code has it. A 2xx response whose body has a false \<open>success\<close> is
  handled differently by the two calls while the flow is mounted. The scan does not
  throw: it ends scanning and reports that no networks were found. The configure throws
  an error whose message is the body's \<open>error\<close> field when that is present and not
  empty, and the fixed text otherwise; the error is shown in the failure alert and
  configuring is reset.
\<close>

theorem success_false_asymmetry:
  assumes "mountedRef st"
    and "ok r" and "json r = Inr data" and "\<not> scan_success data"
    and "ok r'" and "json r' = Inr result" and "\<not> cfg_success result"
  shows "scan_try (Inr r) st = Inr (Alert_alert no_networks_alert (st\<lparr>isScanning := False\<rparr>)) \<and>
         scanWifiNetworksViaHTTP_resume tid (FetchResolved r) st =
           Alert_alert no_networks_alert ((clearTimeout tid st)\<lparr>isScanning := False\<rparr>) \<and>
         configure_try n (Inr r') st =
           Inl (new_Error (case cfg_error result of
                             None \<Rightarrow> ''Configuration failed''
                           | Some m \<Rightarrow> if m = [] then ''Configuration failed'' else m)) \<and>
         configureWifiViaHTTP_resume (tid, n) (FetchResolved r') st =
           Alert_alert
             (configuration_failed_alert
                (case cfg_error result of
                   None \<Rightarrow> ''Configuration failed''
                 | Some m \<Rightarrow> if m = [] then ''Configuration failed'' else m))
             ((clearTimeout tid st)\<lparr>isConfiguring := False\<rparr>)"
proof -
  have scan: "scan_try (Inr r) s =
                Inr (if mountedRef s then Alert_alert no_networks_alert (s\<lparr>isScanning := False\<rparr>)
                     else s)" for s
    using assms(2-4) by (simp add: scan_try_def)
  have m: "mountedRef (clearTimeout tid st)"
    using assms(1) by (simp add: clearTimeout_def)
  have "scanWifiNetworksViaHTTP_resume tid (FetchResolved r) st =
          Alert_alert no_networks_alert ((clearTimeout tid st)\<lparr>isScanning := False\<rparr>)"
    using m
    by (simp add: scanWifiNetworksViaHTTP_resume_def case_prod_beta settle_state settle_result scan)
  moreover have conf: "configure_try n (Inr r') s = Inl (new_Error (error_or_default result))" for s
    using assms(5-7) by (simp add: configure_try_def)
  have "configure_try n (snd (fetchWithTimeout_settle tid (FetchResolved r') st))
          (clearTimeout tid st) = Inl (new_Error (error_or_default result))"
    by (simp add: settle_result conf)
  from configure_resume_throw [OF assms(1) this]
  have "configureWifiViaHTTP_resume (tid, n) (FetchResolved r') st =
          Alert_alert (configuration_failed_alert (error_or_default result))
            ((clearTimeout tid st)\<lparr>isConfiguring := False\<rparr>)"
    by (simp add: new_Error_sel)
  ultimately show ?thesis
    using assms(1) by (simp add: scan conf error_or_default_def)
qed

theorem success_false_asymmetry_witness:
  "alerts (scanWifiNetworksViaHTTP_resume 1 (FetchResolved (scan_reply False [Some home]))
     (ready\<lparr>isScanning := True, isConfiguring := True\<rparr>)) = [no_networks_alert] \<and>
   isScanning (scanWifiNetworksViaHTTP_resume 1 (FetchResolved (scan_reply False [Some home]))
     (ready\<lparr>isScanning := True, isConfiguring := True\<rparr>)) = False \<and>
   alerts (configureWifiViaHTTP_resume (1, home)
     (FetchResolved (configure_reply False (Some ''wrong password'')))
     (ready\<lparr>isScanning := True, isConfiguring := True\<rparr>)) =
     [configuration_failed_alert ''wrong password'']"
proof -
  have h1: "mountedRef (ready\<lparr>isScanning := True, isConfiguring := True\<rparr>)"
    by (simp add: ready_def initial_modal_def)
  have h2: "ok (scan_reply False [Some home])"
    and h5: "ok (configure_reply False (Some ''wrong password''))"
    by (simp_all add: ok_def scan_reply_def configure_reply_def)
  have h3: "json (scan_reply False [Some home]) =
              Inr \<lparr>scan_success = False, scan_networks = Some [Some home]\<rparr>"
    and h6: "json (configure_reply False (Some ''wrong password'')) =
              Inr \<lparr>cfg_success = False, cfg_error = Some ''wrong password''\<rparr>"
    by (simp_all add: scan_reply_def configure_reply_def)
  have h4: "\<not> scan_success \<lparr>scan_success = False, scan_networks = Some [Some home]\<rparr>"
    and h7: "\<not> cfg_success \<lparr>cfg_success = False, cfg_error = Some ''wrong password''\<rparr>"
    by simp_all
  have b: "alerts (ready\<lparr>isScanning := True, isConfiguring := True\<rparr>) = []"
    by (simp add: ready_def initial_modal_def)
  from success_false_asymmetry [OF h1 h2 h3 h4 h5 h6 h7, of 1 home]
  show ?thesis
    using b by (simp add: Alert_alert_def clearTimeout_def)
qed

text \<open>
  Claim C3 as written takes the message from the \<open>error\<close> field whenever it is
  present. A field that is present and empty gives the fixed text instead.
\<close>

theorem empty_error_field_counterexample:
  "spec_error_message \<lparr>cfg_success = False, cfg_error = Some []\<rparr> = [] \<and>
   alerts (configure_run (Responds 40 (configure_reply False (Some [])))
     (ready\<lparr>selectedNetwork := Some home, wifiPassword := ''secret''\<rparr>)) =
     [configuration_failed_alert ''Configuration failed'']"
  by (simp add: spec_error_message_def configure_run_def configureWifiViaHTTP_begin_def
      falsy_def ready_def initial_modal_def home_def fetchWithTimeout_begin_def setTimeout_def
      fetch_def next_event_def first_event_def configureWifiViaHTTP_resume_def
      fetchWithTimeout_settle_def clearTimeout_def configure_try_def ok_def configure_reply_def
      error_or_default_def configure_catch_def new_Error_def Alert_alert_def)

section \<open>Whole runs that fail\<close>

lemma first_event_slow: "\<not> settles_before d b \<Longrightarrow> first_event d b = TimerFired"
  by (cases b) (simp_all add: settles_before_def first_event_def)

lemma scan_begin_mounted:
  assumes "\<not> falsy dev" and "\<not> isScanning st" and "\<not> falsy (userId st)" and "mountedRef st"
  shows "mountedRef (fst (scanWifiNetworksViaHTTP_begin (render_scan st) dev st))"
  using assms by (simp add: scan_begin_ready cleanupWifiListener_eq)

lemma scan_run_throw:
  assumes "\<not> falsy dev" and "\<not> isScanning st" and "\<not> falsy (userId st)" and "mountedRef st"
    and "scan_try (snd (fetchWithTimeout_settle (next_timer st) (first_event 30000 b)
                          (fst (scanWifiNetworksViaHTTP_begin (render_scan st) dev st))))
           (clearTimeout (next_timer st) (fst (scanWifiNetworksViaHTTP_begin (render_scan st) dev st))) = Inl e"
  shows "scan_run dev b st =
           Alert_alert (if err_name e = ''AbortError'' then scan_timeout_alert
                        else scan_failed_alert (err_message e))
             ((clearTimeout (next_timer st) (fst (scanWifiNetworksViaHTTP_begin (render_scan st) dev st)))
                \<lparr>isScanning := False\<rparr>)"
  using scan_resume_throw [OF scan_begin_mounted [OF assms(1-4)] assms(5)]
  by (simp add: scan_run_ready [OF assms(1-4)])

lemma configure_run_throw:
  assumes "selectedNetwork st = Some n" and "\<not> falsy (deviceId st)"
    and "\<not> isConfiguring st" and "\<not> falsy (userId st)"
    and "encryption n = Some ''OPEN'' \<or> wifiPassword st \<noteq> []" and "mountedRef st"
    and "configure_try n (snd (fetchWithTimeout_settle (next_timer st) (first_event 60000 b)
                                 (fst (configureWifiViaHTTP_begin st))))
           (clearTimeout (next_timer st) (fst (configureWifiViaHTTP_begin st))) = Inl e"
  shows "configure_run b st =
           Alert_alert (if err_name e = ''AbortError'' then configuration_timeout_alert
                        else configuration_failed_alert (err_message e))
             ((clearTimeout (next_timer st) (fst (configureWifiViaHTTP_begin st)))
                \<lparr>isConfiguring := False\<rparr>)"
proof -
  have "mountedRef (fst (configureWifiViaHTTP_begin st))"
    using assms(6) by (simp add: configure_begin_ready [OF assms(1-5)])
  from configure_resume_throw [OF this assms(7)] show ?thesis
    by (simp add: configure_run_ready [OF assms(1-5)])
qed

lemma scan_failure_throws:
  "scan_failure ev \<Longrightarrow> \<exists>e. scan_try (snd (fetchWithTimeout_settle tid ev s)) s' = Inl e"
  by (cases ev)
    (auto simp: scan_failure_def settle_result scan_try_def isl_def split: if_splits)

lemma configure_failure_throws:
  "configure_failure ev \<Longrightarrow>
   \<exists>e. configure_try n (snd (fetchWithTimeout_settle tid ev s)) s' = Inl e"
  by (cases ev)
    (auto simp: configure_failure_def settle_result configure_try_def
      split: if_splits sum.splits)

lemma abort_error_sel: "err_name abort_error = ''AbortError''"
  by (simp add: abort_error_def)

text \<open>
  Claim C7. The scan registers its timer for 30000 milliseconds and the configure for
  60000. When the transport has not settled before that, the timer fires first, the
  request is aborted and the run ends with exactly one more alert, the one titled
  \<^verbatim>\<open>Scan Timeout\<close> or \<^verbatim>\<open>Configuration Timeout\<close>, with the in-flight flag reset,
  one request issued and the timer no longer pending. A transport failure that arrives
  in time, under any name other than the abort's, ends the run with exactly one more
  alert too, but the one titled \<^verbatim>\<open>Scan Failed\<close> or \<^verbatim>\<open>Configuration Failed\<close> that
  carries the failure's message: the two outcomes differ. The flow stays mounted
  throughout.
\<close>

theorem timeout_is_told_apart:
  assumes "\<not> falsy dev" and "\<not> isScanning st" and "\<not> falsy (userId st)" and "mountedRef st"
    and "\<not> settles_before 30000 b"
    and "t < 30000" and "err_name e \<noteq> ''AbortError''"
    and "selectedNetwork st' = Some n" and "\<not> falsy (deviceId st')"
    and "\<not> isConfiguring st'" and "\<not> falsy (userId st')"
    and "encryption n = Some ''OPEN'' \<or> wifiPassword st' \<noteq> []" and "mountedRef st'"
    and "\<not> settles_before 60000 b'"
    and "t' < 60000" and "err_name e' \<noteq> ''AbortError''"
  shows "first_event 30000 b = TimerFired \<and>
         alerts (scan_run dev b st) =
           alerts st @ [\<lparr>alert_title = ''Scan Timeout'', alert_text = ScanTimeoutText,
                         alert_closes = False\<rparr>] \<and>
         \<not> isScanning (scan_run dev b st) \<and>
         requests (scan_run dev b st) = requests st @ [scan_request] \<and>
         next_timer st \<notin> fst ` set (timers (scan_run dev b st)) \<and>
         alerts (scan_run dev (Fails t e) st) =
           alerts st @ [\<lparr>alert_title = ''Scan Failed'',
                         alert_text = ScanFailedText (err_message e),
                         alert_closes = False\<rparr>] \<and>
         \<not> isScanning (scan_run dev (Fails t e) st) \<and>
         alerts (scan_run dev b st) \<noteq> alerts (scan_run dev (Fails t e) st) \<and>
         first_event 60000 b' = TimerFired \<and>
         alerts (configure_run b' st') =
           alerts st' @ [\<lparr>alert_title = ''Configuration Timeout'',
                          alert_text = ConfigurationTimeoutText, alert_closes = False\<rparr>] \<and>
         \<not> isConfiguring (configure_run b' st') \<and>
         next_timer st' \<notin> fst ` set (timers (configure_run b' st')) \<and>
         alerts (configure_run (Fails t' e') st') =
           alerts st' @ [\<lparr>alert_title = ''Configuration Failed'',
                          alert_text = ConfigurationFailedText (err_message e'),
                          alert_closes = False\<rparr>] \<and>
         \<not> isConfiguring (configure_run (Fails t' e') st') \<and>
         alerts (configure_run b' st') \<noteq> alerts (configure_run (Fails t' e') st')"
proof -
  note sr = assms(1-4)
  note cr = assms(8-13)
  have s1: "scan_run dev b st =
              Alert_alert scan_timeout_alert
                ((clearTimeout (next_timer st)
                    (fst (scanWifiNetworksViaHTTP_begin (render_scan st) dev st)))
                   \<lparr>isScanning := False\<rparr>)"
    using scan_run_throw [OF sr, of b abort_error]
    by (simp add: first_event_slow [OF assms(5)] settle_result scan_try_def abort_error_sel)
  have s2: "scan_run dev (Fails t e) st =
              Alert_alert (scan_failed_alert (err_message e))
                ((clearTimeout (next_timer st)
                    (fst (scanWifiNetworksViaHTTP_begin (render_scan st) dev st)))
                   \<lparr>isScanning := False\<rparr>)"
    using scan_run_throw [OF sr, of "Fails t e" e] assms(6,7)
    by (simp add: first_event_def settle_result scan_try_def)
  have c1: "configure_run b' st' =
              Alert_alert configuration_timeout_alert
                ((clearTimeout (next_timer st') (fst (configureWifiViaHTTP_begin st')))
                   \<lparr>isConfiguring := False\<rparr>)"
    using configure_run_throw [OF cr, of b' abort_error]
    by (simp add: first_event_slow [OF assms(14)] settle_result configure_try_def abort_error_sel)
  have c2: "configure_run (Fails t' e') st' =
              Alert_alert (configuration_failed_alert (err_message e'))
                ((clearTimeout (next_timer st') (fst (configureWifiViaHTTP_begin st')))
                   \<lparr>isConfiguring := False\<rparr>)"
    using configure_run_throw [OF cr, of "Fails t' e'" e'] assms(15,16)
    by (simp add: first_event_def settle_result configure_try_def)
  have scan_part:
    "alerts (scan_run dev b st) =
       alerts st @ [\<lparr>alert_title = ''Scan Timeout'', alert_text = ScanTimeoutText,
                     alert_closes = False\<rparr>] \<and>
     \<not> isScanning (scan_run dev b st) \<and>
     requests (scan_run dev b st) = requests st @ [scan_request] \<and>
     next_timer st \<notin> fst ` set (timers (scan_run dev b st)) \<and>
     alerts (scan_run dev (Fails t e) st) =
       alerts st @ [\<lparr>alert_title = ''Scan Failed'',
                     alert_text = ScanFailedText (err_message e),
                     alert_closes = False\<rparr>] \<and>
     \<not> isScanning (scan_run dev (Fails t e) st)"
    unfolding s1 s2
    by (auto simp: Alert_alert_def clearTimeout_def scan_begin_ready [OF sr]
        cleanupWifiListener_eq scan_timeout_alert_def scan_failed_alert_def)
  have configure_part:
    "alerts (configure_run b' st') =
       alerts st' @ [\<lparr>alert_title = ''Configuration Timeout'',
                      alert_text = ConfigurationTimeoutText, alert_closes = False\<rparr>] \<and>
     \<not> isConfiguring (configure_run b' st') \<and>
     next_timer st' \<notin> fst ` set (timers (configure_run b' st')) \<and>
     alerts (configure_run (Fails t' e') st') =
       alerts st' @ [\<lparr>alert_title = ''Configuration Failed'',
                      alert_text = ConfigurationFailedText (err_message e'),
                      alert_closes = False\<rparr>] \<and>
     \<not> isConfiguring (configure_run (Fails t' e') st')"
    unfolding c1 c2
    by (auto simp: Alert_alert_def clearTimeout_def configure_begin_ready [OF assms(8-12)]
        configuration_timeout_alert_def configuration_failed_alert_def)
  have scan_differ: "alerts (scan_run dev b st) \<noteq> alerts (scan_run dev (Fails t e) st)"
    using scan_part by simp
  have configure_differ:
    "alerts (configure_run b' st') \<noteq> alerts (configure_run (Fails t' e') st')"
    using configure_part by simp
  from scan_part configure_part scan_differ configure_differ
    first_event_slow [OF assms(5)] first_event_slow [OF assms(14)]
  show ?thesis by simp
qed

theorem timeout_is_told_apart_witness:
  "alerts (scan_run (Some ''meter-1'') (Responds 45000 (scan_reply True [Some home])) ready) =
     [\<lparr>alert_title = ''Scan Timeout'', alert_text = ScanTimeoutText, alert_closes = False\<rparr>] \<and>
   isScanning (scan_run (Some ''meter-1'') (Responds 45000 (scan_reply True [Some home])) ready) =
     False \<and>
   alerts (scan_run (Some ''meter-1'') (Fails 10 unreachable) ready) =
     [\<lparr>alert_title = ''Scan Failed'', alert_text = ScanFailedText ''Network request failed'',
       alert_closes = False\<rparr>] \<and>
   alerts (configure_run (Responds 90000 (configure_reply True None))
     (ready\<lparr>selectedNetwork := Some home, wifiPassword := ''secret''\<rparr>)) =
     [\<lparr>alert_title = ''Configuration Timeout'', alert_text = ConfigurationTimeoutText,
       alert_closes = False\<rparr>] \<and>
   alerts (configure_run (Fails 10 unreachable)
     (ready\<lparr>selectedNetwork := Some home, wifiPassword := ''secret''\<rparr>)) =
     [\<lparr>alert_title = ''Configuration Failed'',
       alert_text = ConfigurationFailedText ''Network request failed'',
       alert_closes = False\<rparr>]"
proof -
  let ?c = "ready\<lparr>selectedNetwork := Some home, wifiPassword := ''secret''\<rparr>"
  have a1: "\<not> falsy (Some ''meter-1'')" and a2: "\<not> isScanning ready"
    and a3: "\<not> falsy (userId ready)" and a4: "mountedRef ready"
    by (simp_all add: falsy_def ready_def initial_modal_def)
  have a5: "\<not> settles_before 30000 (Responds 45000 (scan_reply True [Some home]))"
    by (simp add: settles_before_def)
  have a6: "(10::nat) < 30000" and a7: "err_name unreachable \<noteq> ''AbortError''"
    by (simp_all add: unreachable_def)
  have b1: "selectedNetwork ?c = Some home" and b2: "\<not> falsy (deviceId ?c)"
    and b3: "\<not> isConfiguring ?c" and b4: "\<not> falsy (userId ?c)"
    and b5: "encryption home = Some ''OPEN'' \<or> wifiPassword ?c \<noteq> []"
    and b6: "mountedRef ?c"
    by (simp_all add: falsy_def ready_def initial_modal_def)
  have b7: "\<not> settles_before 60000 (Responds 90000 (configure_reply True None))"
    by (simp add: settles_before_def)
  have b8: "(10::nat) < 60000"
    by simp
  have e: "alerts ready = []" "alerts ?c = []" "err_message unreachable = ''Network request failed''"
    by (simp_all add: ready_def initial_modal_def unreachable_def)
  from timeout_is_told_apart [OF a1 a2 a3 a4 a5 a6 a7 b1 b2 b3 b4 b5 b6 b7 b8 a7]
  show ?thesis
    by (simp add: e)
qed

text \<open>
  Claim C4, as the code has it. Every failure path of a scan or a configure that was
  started on a mounted flow and runs to its end resets the in-flight flag of the call,
  leaves its timer cleared and shows one alert. After a failed scan the list of networks
  is empty, since the scan emptied it when it started; the selected network, the
  password and the other flag are as before. After a failed configure the list of
  networks, the selected network, the password and the scanning flag are as before.
\<close>

theorem failure_ends_the_operation:
  assumes "\<not> falsy dev" and "\<not> isScanning st" and "\<not> falsy (userId st)" and "mountedRef st"
    and "scan_failure (first_event 30000 b)"
    and "selectedNetwork st' = Some n" and "\<not> falsy (deviceId st')"
    and "\<not> isConfiguring st'" and "\<not> falsy (userId st')"
    and "encryption n = Some ''OPEN'' \<or> wifiPassword st' \<noteq> []" and "mountedRef st'"
    and "configure_failure (first_event 60000 b')"
  shows "\<not> isScanning (scan_run dev b st) \<and>
         wifiNetworks (scan_run dev b st) = [] \<and>
         selectedNetwork (scan_run dev b st) = selectedNetwork st \<and>
         wifiPassword (scan_run dev b st) = wifiPassword st \<and>
         isConfiguring (scan_run dev b st) = isConfiguring st \<and>
         next_timer st \<notin> fst ` set (timers (scan_run dev b st)) \<and>
         length (alerts (scan_run dev b st)) = Suc (length (alerts st)) \<and>
         \<not> isConfiguring (configure_run b' st') \<and>
         wifiNetworks (configure_run b' st') = wifiNetworks st' \<and>
         selectedNetwork (configure_run b' st') = selectedNetwork st' \<and>
         wifiPassword (configure_run b' st') = wifiPassword st' \<and>
         isScanning (configure_run b' st') = isScanning st' \<and>
         next_timer st' \<notin> fst ` set (timers (configure_run b' st')) \<and>
         length (alerts (configure_run b' st')) = Suc (length (alerts st'))"
proof -
  note sr = assms(1-4)
  note cr = assms(6-11)
  obtain e where
    "scan_try (snd (fetchWithTimeout_settle (next_timer st) (first_event 30000 b)
                      (fst (scanWifiNetworksViaHTTP_begin (render_scan st) dev st))))
       (clearTimeout (next_timer st) (fst (scanWifiNetworksViaHTTP_begin (render_scan st) dev st))) = Inl e"
    using scan_failure_throws [OF assms(5)] by blast
  from scan_run_throw [OF sr this]
  have scan_part:
    "\<not> isScanning (scan_run dev b st) \<and>
     wifiNetworks (scan_run dev b st) = [] \<and>
     selectedNetwork (scan_run dev b st) = selectedNetwork st \<and>
     wifiPassword (scan_run dev b st) = wifiPassword st \<and>
     isConfiguring (scan_run dev b st) = isConfiguring st \<and>
     next_timer st \<notin> fst ` set (timers (scan_run dev b st)) \<and>
     length (alerts (scan_run dev b st)) = Suc (length (alerts st))"
    by (auto simp: Alert_alert_def clearTimeout_def scan_begin_ready [OF sr]
        cleanupWifiListener_eq)
  obtain e' where
    "configure_try n (snd (fetchWithTimeout_settle (next_timer st') (first_event 60000 b')
                             (fst (configureWifiViaHTTP_begin st'))))
       (clearTimeout (next_timer st') (fst (configureWifiViaHTTP_begin st'))) = Inl e'"
    using configure_failure_throws [OF assms(12)] by blast
  from configure_run_throw [OF cr this]
  have configure_part:
    "\<not> isConfiguring (configure_run b' st') \<and>
     wifiNetworks (configure_run b' st') = wifiNetworks st' \<and>
     selectedNetwork (configure_run b' st') = selectedNetwork st' \<and>
     wifiPassword (configure_run b' st') = wifiPassword st' \<and>
     isScanning (configure_run b' st') = isScanning st' \<and>
     next_timer st' \<notin> fst ` set (timers (configure_run b' st')) \<and>
     length (alerts (configure_run b' st')) = Suc (length (alerts st'))"
    by (auto simp: Alert_alert_def clearTimeout_def configure_begin_ready [OF assms(6-10)])
  from scan_part configure_part show ?thesis by simp
qed

theorem failure_ends_the_operation_witness:
  "isScanning (scan_run (Some ''meter-1'') (Responds 20 (status_reply 404 ''Not Found''))
     (ready\<lparr>wifiNetworks := [home]\<rparr>)) = False \<and>
   wifiNetworks (scan_run (Some ''meter-1'') (Responds 20 (status_reply 404 ''Not Found''))
     (ready\<lparr>wifiNetworks := [home]\<rparr>)) = [] \<and>
   isConfiguring (configure_run (Responds 20 (configure_reply False None))
     (ready\<lparr>wifiNetworks := [home], selectedNetwork := Some home,
            wifiPassword := ''secret''\<rparr>)) = False \<and>
   wifiNetworks (configure_run (Responds 20 (configure_reply False None))
     (ready\<lparr>wifiNetworks := [home], selectedNetwork := Some home,
            wifiPassword := ''secret''\<rparr>)) = [home]"
proof -
  let ?s = "ready\<lparr>wifiNetworks := [home]\<rparr>"
  let ?c = "ready\<lparr>wifiNetworks := [home], selectedNetwork := Some home,
                  wifiPassword := ''secret''\<rparr>"
  have a1: "\<not> falsy (Some ''meter-1'')" and a2: "\<not> isScanning ?s"
    and a3: "\<not> falsy (userId ?s)" and a4: "mountedRef ?s"
    by (simp_all add: falsy_def ready_def initial_modal_def)
  have a5: "scan_failure (first_event 30000 (Responds 20 (status_reply 404 ''Not Found'')))"
    by (simp add: scan_failure_def first_event_def ok_def status_reply_def)
  have b1: "selectedNetwork ?c = Some home" and b2: "\<not> falsy (deviceId ?c)"
    and b3: "\<not> isConfiguring ?c" and b4: "\<not> falsy (userId ?c)"
    and b5: "encryption home = Some ''OPEN'' \<or> wifiPassword ?c \<noteq> []"
    and b6: "mountedRef ?c"
    by (simp_all add: falsy_def ready_def initial_modal_def)
  have b7: "configure_failure (first_event 60000 (Responds 20 (configure_reply False None)))"
    by (simp add: configure_failure_def first_event_def ok_def configure_reply_def)
  from failure_ends_the_operation [OF a1 a2 a3 a4 a5 b1 b2 b3 b4 b5 b6 b7]
  show ?thesis
    by simp
qed

text \<open>
  Claim C4 as written has the list of networks after a failed scan as it was before the
  scan. A list that held one network is empty after a scan that failed.
\<close>

theorem failed_scan_empties_list_counterexample:
  "wifiNetworks (ready\<lparr>wifiNetworks := [home]\<rparr>) = [home] \<and>
   wifiNetworks (scan_run (Some ''meter-1'') (Fails 10 unreachable)
     (ready\<lparr>wifiNetworks := [home]\<rparr>)) = []"
  by (simp add: scan_run_def scanWifiNetworksViaHTTP_begin_def render_scan_def falsy_def ready_def
      initial_modal_def cleanupWifiListener_eq fetchWithTimeout_begin_def setTimeout_def
      fetch_def next_event_def first_event_def scanWifiNetworksViaHTTP_resume_def
      fetchWithTimeout_settle_def clearTimeout_def scan_try_def scan_catch_def
      Alert_alert_def)

end
